theory Spec2Isabelle
  imports Main
begin

section \<open>The saga glue of grabbit (gbus/saga/glue.go)\<close>

text \<open>
  The glue binds messages delivered by the bus to saga instances. It talks to three
  collaborators through interfaces (the saga store, the timeout manager and the bus) and
  to the saga author's code (handlers, timeout handlers, instance construction). None of
  them is implemented in glue.go, so the model takes them as a record of response
  functions. Every call the glue issues to one of them is appended to a history (a list
  of calls); a collaborator answers a call from the arguments and the history so far,
  which is what a deterministic collaborator with private state does. The history is the
  only state besides the glue's own registry.

  Logging, tracing spans and metrics are sinks without influence on control flow and are
  left out. The mutex held by SagaHandler serialises calls; the model describes one call.
\<close>

subsection \<open>Data\<close>

type_synonym sagaType = string
type_synonym Tx = nat

text \<open>Go's \<open>error\<close> values: the package sentinel, errors the glue builds itself
  (\<open>errors.New\<close>, \<open>fmt.Errorf\<close>) and errors coming from a collaborator. A Go
  \<open>error\<close> result is an \<open>Error option\<close>, with \<open>None\<close> for \<open>nil\<close>.\<close>

datatype Error =
    ErrInstanceNotFound
  | ErrorsNew string
  | Errorf string
  | External string

text \<open>Modelled from the spec: gbus.Semantics is declared outside src; the spec has a tag
  that tells command-like from event-like messages. The glue only compares it with CMD.\<close>

datatype Semantics = CMD | EVT

record BusMessage =
  ID :: string
  SagaID :: string
  SagaCorrelationID :: string
  RPCID :: string
  PayloadFQN :: string
  Semantics :: Semantics

record Message =
  SchemaName :: string

record Invocation =
  InvokingSvc :: string
  Tx :: Tx
  Routing :: "string \<times> string"

text \<open>Modelled from the spec: the Instance struct is declared outside src. The spec gives it
  an id, the four causation fields, a completion flag set by business logic, and opaque
  business state; a saga may also ask for a timeout.\<close>

record Instance =
  InstanceID :: string
  StartedBy :: string
  StartedBySaga :: string
  StartedByMessageID :: string
  StartedByRPCID :: string
  complete :: bool
  requestedTimeout :: "nat option"
  UnderlyingInstance :: nat

text \<open>Modelled from the spec: the Def struct is declared outside src; glue.go sets
  \<open>sagaType\<close>, \<open>startedBy\<close> and \<open>msgToFunc\<close> (here the message names of the handler
  table, in registration order).\<close>

record Def =
  sagaType :: sagaType
  startedBy :: "string list"
  msgToFunc :: "string list"

record sagaInvocation =
  decoratedInvocation :: Invocation
  inboundMsg :: BusMessage
  invSagaID :: string
  hostingSvc :: string
  invStartedBy :: string
  invStartedBySaga :: string
  invStartedByMessageID :: string
  invStartedByRPCID :: string

text \<open>What a saga hands to RegisterSaga: its concrete type, the messages that start it
  and the handler registrations its \<open>RegisterAllHandlers\<close> performs on the Def.\<close>

datatype HandlerReg =
    OnMessage Message
  | OnEvent string string Message

record Saga =
  TypeOf :: sagaType
  SagaStartedBy :: "Message list"
  Handlers :: "HandlerReg list"

record Glue =
  svcName :: string
  sagaDefs :: "Def list"
  alreadyRegistred :: "string \<rightharpoonup> bool"
  msgToDefMap :: "string \<rightharpoonup> Def list"

subsection \<open>Collaborators and the history of calls\<close>

datatype Call =
    RegisterSagaTypeCall Saga
  | SaveNewSagaCall Tx sagaType Instance
  | GetSagaByIDCall Tx string
  | GetSagasByTypeCall Tx sagaType
  | UpdateSagaCall Tx Instance
  | DeleteSagaCall Tx Instance
  | RegisterTimeoutCall Tx string nat
  | ClearTimeoutCall Tx string
  | HandleMessageCall Message
  | HandleEventCall string string Message
  | NewInstanceCall Def
  | InvokeCall Instance string string sagaInvocation BusMessage
  | TimeoutCall Instance Tx

type_synonym History = "Call list"

text \<open>The Store, TimeoutManager and Bus interfaces and the methods of Def and Instance
  that run saga-author code. \<open>GetSagaByID\<close> and \<open>GetSagasByType\<close> return Go's pair
  (value, error); an instance pointer is an \<open>Instance option\<close>, \<open>None\<close> for
  \<open>nil\<close>. \<open>invoke\<close> and \<open>timeout\<close> mutate the instance they are called on: they
  return it as it is afterwards. \<open>filterMsgName\<close> is the name under which the message
  filter of a handler registration (built in package gbus, outside src) files a message
  in the Def's handler table.\<close>

record Collab =
  SaveNewSaga :: "Tx \<Rightarrow> sagaType \<Rightarrow> Instance \<Rightarrow> History \<Rightarrow> Error option"
  GetSagaByID :: "Tx \<Rightarrow> string \<Rightarrow> History \<Rightarrow> Instance option \<times> Error option"
  GetSagasByType :: "Tx \<Rightarrow> sagaType \<Rightarrow> History \<Rightarrow> Instance list \<times> Error option"
  UpdateSaga :: "Tx \<Rightarrow> Instance \<Rightarrow> History \<Rightarrow> Error option"
  DeleteSaga :: "Tx \<Rightarrow> Instance \<Rightarrow> History \<Rightarrow> Error option"
  RegisterTimeout :: "Tx \<Rightarrow> string \<Rightarrow> nat \<Rightarrow> History \<Rightarrow> Error option"
  ClearTimeout :: "Tx \<Rightarrow> string \<Rightarrow> History \<Rightarrow> Error option"
  HandleMessage :: "Message \<Rightarrow> History \<Rightarrow> Error option"
  HandleEvent :: "string \<Rightarrow> string \<Rightarrow> Message \<Rightarrow> History \<Rightarrow> Error option"
  filterMsgName :: "Message \<Rightarrow> string"
  newInstance :: "Def \<Rightarrow> History \<Rightarrow> Instance"
  configureSaga :: "Def \<Rightarrow> Instance \<Rightarrow> Instance"
  invoke :: "Instance \<Rightarrow> string \<Rightarrow> string \<Rightarrow> sagaInvocation \<Rightarrow> BusMessage \<Rightarrow> History
               \<Rightarrow> Error option \<times> Instance"
  timeout :: "Instance \<Rightarrow> Tx \<Rightarrow> History \<Rightarrow> Error option \<times> Instance"

subsection \<open>Methods of Def and Instance used by the glue\<close>

text \<open>\<open>strings.ToLower\<close> on ASCII: the letters A to Z are mapped to a to z, every other
  byte is kept.\<close>

definition toLowerChar :: "char \<Rightarrow> char" where
  "toLowerChar ch =
     (if (65::nat) \<le> of_char ch \<and> of_char ch \<le> (90::nat)
      then char_of (of_char ch + (32::nat)) else ch)"

definition ToLower :: "string \<Rightarrow> string" where
  "ToLower s = map toLowerChar s"

text \<open>Modelled from the spec: Instance.isComplete is outside src; the instance reports the
  completion flag that business logic set.\<close>

definition isComplete :: "Instance \<Rightarrow> bool" where
  "isComplete instance = complete instance"

text \<open>Modelled from the spec: Instance.requestsTimeout is outside src; it tells whether the
  saga asked for a timeout and for which duration.\<close>

definition requestsTimeout :: "Instance \<Rightarrow> bool \<times> nat" where
  "requestsTimeout instance =
     (case requestedTimeout instance of None \<Rightarrow> (False, 0) | Some duration \<Rightarrow> (True, duration))"

text \<open>Modelled from the spec: Def.shouldStartNewSaga is outside src; a message starts a saga
  when the Def's \<open>startedBy\<close> set contains the message name.\<close>

definition shouldStartNewSaga :: "Def \<Rightarrow> BusMessage \<Rightarrow> bool" where
  "shouldStartNewSaga def message = (PayloadFQN message \<in> set (startedBy def))"

text \<open>Modelled from the spec: Def.getHandledMessages is outside src; the message names the
  handler table covers, in registration order.\<close>

definition getHandledMessages :: "Def \<Rightarrow> string list" where
  "getHandledMessages def = msgToFunc def"

text \<open>Modelled from the spec: Def.addMsgToHandlerMapping is outside src; it adds the
  message to the Def's handler table, under the name the message filter gives it.\<close>

definition addMsgToHandlerMapping :: "Collab \<Rightarrow> Def \<Rightarrow> Message \<Rightarrow> Def" where
  "addMsgToHandlerMapping c def message =
     def\<lparr>msgToFunc := msgToFunc def @ [filterMsgName c message]\<rparr>"

subsection \<open>The glue\<close>

definition fqnsFromMessages :: "Message list \<Rightarrow> string list" where
  "fqnsFromMessages objs = map SchemaName objs"

fun isSagaAlreadyRegistered_defs :: "Def list \<Rightarrow> sagaType \<Rightarrow> bool" where
  "isSagaAlreadyRegistered_defs [] t = False"
| "isSagaAlreadyRegistered_defs (def # defs) t =
     (if sagaType def = t then True else isSagaAlreadyRegistered_defs defs t)"

definition isSagaAlreadyRegistered :: "Glue \<Rightarrow> sagaType \<Rightarrow> bool" where
  "isSagaAlreadyRegistered imsm t = isSagaAlreadyRegistered_defs (sagaDefs imsm) t"

definition getDefsForMsgName :: "Glue \<Rightarrow> string \<Rightarrow> Def list" where
  "getDefsForMsgName imsm msgName =
     (case msgToDefMap imsm msgName of None \<Rightarrow> [] | Some defs \<Rightarrow> defs)"

definition addMsgNameToDef :: "Glue \<Rightarrow> string \<Rightarrow> Def \<Rightarrow> Glue" where
  "addMsgNameToDef imsm msgName def =
     imsm\<lparr>msgToDefMap := (msgToDefMap imsm)(msgName \<mapsto> getDefsForMsgName imsm msgName @ [def])\<rparr>"

definition registerMessage ::
  "Collab \<Rightarrow> Glue \<Rightarrow> Message \<Rightarrow> History \<Rightarrow> Error option \<times> Glue \<times> History" where
  "registerMessage c imsm message h =
     (case alreadyRegistred imsm (SchemaName message) of
        Some _ \<Rightarrow> (None, imsm, h)
      | None \<Rightarrow>
          (HandleMessage c message h,
           imsm\<lparr>alreadyRegistred := (alreadyRegistred imsm)(SchemaName message \<mapsto> True)\<rparr>,
           h @ [HandleMessageCall message]))"

definition registerEvent ::
  "Collab \<Rightarrow> Glue \<Rightarrow> string \<Rightarrow> string \<Rightarrow> Message \<Rightarrow> History \<Rightarrow> Error option \<times> Glue \<times> History" where
  "registerEvent c imsm exchange topic event h =
     (case alreadyRegistred imsm (SchemaName event) of
        Some _ \<Rightarrow> (None, imsm, h)
      | None \<Rightarrow>
          (HandleEvent c exchange topic event h,
           imsm\<lparr>alreadyRegistred := (alreadyRegistred imsm)(SchemaName event \<mapsto> True)\<rparr>,
           h @ [HandleEventCall exchange topic event]))"

text \<open>Modelled from the spec: Def.HandleMessage and Def.HandleEvent are outside src. A saga
  registering a handler on its Def adds the message to the Def's handler table and has the
  glue subscribe to the message on the bus, once per message name (registerMessage and
  registerEvent above). The error of the subscription goes back to the saga's
  \<open>RegisterAllHandlers\<close>, which returns nothing to RegisterSaga.\<close>

fun registerHandler ::
  "Collab \<Rightarrow> HandlerReg \<Rightarrow> Def \<times> Glue \<times> History \<Rightarrow> Def \<times> Glue \<times> History" where
  "registerHandler c (OnMessage message) (def, imsm, h) =
     (case registerMessage c imsm message h of
        (_, imsm', h') \<Rightarrow> (addMsgToHandlerMapping c def message, imsm', h'))"
| "registerHandler c (OnEvent exchange topic event) (def, imsm, h) =
     (case registerEvent c imsm exchange topic event h of
        (_, imsm', h') \<Rightarrow> (addMsgToHandlerMapping c def event, imsm', h'))"

definition RegisterAllHandlers ::
  "Collab \<Rightarrow> Saga \<Rightarrow> Def \<times> Glue \<times> History \<Rightarrow> Def \<times> Glue \<times> History" where
  "RegisterAllHandlers c saga s = fold (registerHandler c) (Handlers saga) s"

definition RegisterSaga ::
  "Collab \<Rightarrow> Glue \<Rightarrow> Saga \<Rightarrow> History \<Rightarrow> Error option \<times> Glue \<times> History" where
  "RegisterSaga c imsm saga h =
     (if isSagaAlreadyRegistered imsm (TypeOf saga)
      then (Some (Errorf (''saga of type '' @ TypeOf saga @ '' already registered'')), imsm, h)
      else
        (case RegisterAllHandlers c saga
                (\<lparr>sagaType = TypeOf saga,
                  startedBy = fqnsFromMessages (SagaStartedBy saga),
                  msgToFunc = []\<rparr>,
                 imsm, h @ [RegisterSagaTypeCall saga]) of
           (def, imsm1, h1) \<Rightarrow>
             (None,
              fold (\<lambda>msgName g. addMsgNameToDef g msgName def) (getHandledMessages def)
                (imsm1\<lparr>sagaDefs := sagaDefs imsm1 @ [def]\<rparr>),
              h1)))"

definition invokeSagaInstance ::
  "Collab \<Rightarrow> Glue \<Rightarrow> Def \<Rightarrow> Instance \<Rightarrow> Invocation \<Rightarrow> BusMessage \<Rightarrow> History
     \<Rightarrow> (Error option \<times> Instance) \<times> History" where
  "invokeSagaInstance c imsm def instance invocation message h =
     (let sginv = \<lparr>decoratedInvocation = invocation,
                   inboundMsg = message,
                   invSagaID = InstanceID instance,
                   hostingSvc = svcName imsm,
                   invStartedBy = StartedBy instance,
                   invStartedBySaga = StartedBySaga instance,
                   invStartedByMessageID = StartedByMessageID instance,
                   invStartedByRPCID = StartedByRPCID instance\<rparr>;
          exchange = fst (Routing invocation);
          routingKey = snd (Routing invocation)
      in (invoke c instance exchange routingKey sginv message h,
          h @ [InvokeCall instance exchange routingKey sginv message]))"

definition completeOrUpdateSaga ::
  "Collab \<Rightarrow> Tx \<Rightarrow> Instance \<Rightarrow> History \<Rightarrow> Error option \<times> History" where
  "completeOrUpdateSaga c tx instance h =
     (if isComplete instance then
        (case DeleteSaga c tx instance h of
           Some deleteErr \<Rightarrow> (Some deleteErr, h @ [DeleteSagaCall tx instance])
         | None \<Rightarrow>
             (ClearTimeout c tx (InstanceID instance) (h @ [DeleteSagaCall tx instance]),
              h @ [DeleteSagaCall tx instance, ClearTimeoutCall tx (InstanceID instance)]))
      else (UpdateSaga c tx instance h, h @ [UpdateSagaCall tx instance]))"

definition handleNewSaga ::
  "Collab \<Rightarrow> Glue \<Rightarrow> Def \<Rightarrow> Invocation \<Rightarrow> BusMessage \<Rightarrow> History \<Rightarrow> Error option \<times> History" where
  "handleNewSaga c imsm def invocation message h =
     (let created = (newInstance c def h)
            \<lparr>StartedBy := InvokingSvc invocation,
             StartedBySaga := SagaID message,
             StartedByRPCID := RPCID message,
             StartedByMessageID := ID message\<rparr>
      in case invokeSagaInstance c imsm def created invocation message (h @ [NewInstanceCall def]) of
           ((invkErr, inst), h1) \<Rightarrow>
             (case invkErr of
                Some e \<Rightarrow> (Some e, h1)
              | None \<Rightarrow>
                  if \<not> isComplete inst then
                    (case SaveNewSaga c (Tx invocation) (sagaType def) inst h1 of
                       Some e \<Rightarrow>
                         (Some e, h1 @ [SaveNewSagaCall (Tx invocation) (sagaType def) inst])
                     | None \<Rightarrow>
                         (case requestsTimeout inst of
                            (requests, duration) \<Rightarrow>
                              if requests then
                                (RegisterTimeout c (Tx invocation) (InstanceID inst) duration
                                   (h1 @ [SaveNewSagaCall (Tx invocation) (sagaType def) inst]),
                                 h1 @ [SaveNewSagaCall (Tx invocation) (sagaType def) inst,
                                       RegisterTimeoutCall (Tx invocation) (InstanceID inst)
                                         duration])
                              else
                                (None,
                                 h1 @ [SaveNewSagaCall (Tx invocation) (sagaType def) inst])))
                  else (None, h1)))"

text \<open>The loop over the instances fetched by type (lines 206 to 216 of glue.go).\<close>

fun fanOut ::
  "Collab \<Rightarrow> Glue \<Rightarrow> Def \<Rightarrow> Invocation \<Rightarrow> BusMessage \<Rightarrow> Instance list \<Rightarrow> History
     \<Rightarrow> Error option \<times> History" where
  "fanOut c imsm def invocation message [] h = (None, h)"
| "fanOut c imsm def invocation message (instance # instances) h =
     (case invokeSagaInstance c imsm def (configureSaga c def instance) invocation message h of
        ((invkErr, inst), h1) \<Rightarrow>
          (case invkErr of
             Some e \<Rightarrow> (Some e, h1)
           | None \<Rightarrow>
               (case completeOrUpdateSaga c (Tx invocation) inst h1 of
                  (e, h2) \<Rightarrow>
                    (case e of
                       Some e' \<Rightarrow> (Some e', h2)
                     | None \<Rightarrow> fanOut c imsm def invocation message instances h2))))"

text \<open>The loop over the Defs indexed under the message name (lines 147 to 218).\<close>

fun SagaHandler_defs ::
  "Collab \<Rightarrow> Glue \<Rightarrow> Invocation \<Rightarrow> BusMessage \<Rightarrow> Def list \<Rightarrow> History \<Rightarrow> Error option \<times> History" where
  "SagaHandler_defs c imsm invocation message [] h = (None, h)"
| "SagaHandler_defs c imsm invocation message (def # defs) h =
     (if shouldStartNewSaga def message then handleNewSaga c imsm def invocation message h
      else if SagaCorrelationID message \<noteq> [] then
        (case GetSagaByID c (Tx invocation) (SagaCorrelationID message) h of
           (found, getErr) \<Rightarrow>
             (case getErr of
                Some e \<Rightarrow>
                  (Some e, h @ [GetSagaByIDCall (Tx invocation) (SagaCorrelationID message)])
              | None \<Rightarrow>
                  (case found of
                     None \<Rightarrow>
                       (None, h @ [GetSagaByIDCall (Tx invocation) (SagaCorrelationID message)])
                   | Some instance \<Rightarrow>
                       (case invokeSagaInstance c imsm def (configureSaga c def instance)
                               invocation message
                               (h @ [GetSagaByIDCall (Tx invocation)
                                       (SagaCorrelationID message)]) of
                          ((invkErr, inst), h1) \<Rightarrow>
                            (case invkErr of
                               Some e \<Rightarrow> (Some e, h1)
                             | None \<Rightarrow> completeOrUpdateSaga c (Tx invocation) inst h1)))))
      else if Semantics message = CMD then
        (Some (ErrorsNew ''can not resolve saga instance for message''), h)
      else
        (case GetSagasByType c (Tx invocation) (sagaType def) h of
           (instances, e) \<Rightarrow>
             (case e of
                Some e' \<Rightarrow> (Some e', h @ [GetSagasByTypeCall (Tx invocation) (sagaType def)])
              | None \<Rightarrow>
                  (case fanOut c imsm def invocation message instances
                          (h @ [GetSagasByTypeCall (Tx invocation) (sagaType def)]) of
                     (e', h1) \<Rightarrow>
                       (case e' of
                          Some e'' \<Rightarrow> (Some e'', h1)
                        | None \<Rightarrow> SagaHandler_defs c imsm invocation message defs h1)))))"

definition SagaHandler ::
  "Collab \<Rightarrow> Glue \<Rightarrow> Invocation \<Rightarrow> BusMessage \<Rightarrow> History \<Rightarrow> Error option \<times> History" where
  "SagaHandler c imsm invocation message h =
     SagaHandler_defs c imsm invocation message
       (getDefsForMsgName imsm (ToLower (PayloadFQN message))) h"

text \<open>TimeoutSaga dereferences the fetched instance without a nil check: a store that
  answers with no instance and no error makes it panic.\<close>

datatype Outcome = Returns "Error option" | NilDereference

definition TimeoutSaga :: "Collab \<Rightarrow> Tx \<Rightarrow> string \<Rightarrow> History \<Rightarrow> Outcome \<times> History" where
  "TimeoutSaga c tx sagaID h =
     (case GetSagaByID c tx sagaID h of
        (found, err) \<Rightarrow>
          (case err of
             Some e \<Rightarrow>
               if e = ErrInstanceNotFound then (Returns None, h @ [GetSagaByIDCall tx sagaID])
               else (Returns (Some e), h @ [GetSagaByIDCall tx sagaID])
           | None \<Rightarrow>
               (case found of
                  None \<Rightarrow> (NilDereference, h @ [GetSagaByIDCall tx sagaID])
                | Some saga \<Rightarrow>
                    (case timeout c saga tx (h @ [GetSagaByIDCall tx sagaID]) of
                       (timeoutErr, saga') \<Rightarrow>
                         (case timeoutErr of
                            Some e \<Rightarrow>
                              (Returns (Some e),
                               h @ [GetSagaByIDCall tx sagaID, TimeoutCall saga tx])
                          | None \<Rightarrow>
                              (case completeOrUpdateSaga c tx saga'
                                      (h @ [GetSagaByIDCall tx sagaID, TimeoutCall saga tx]) of
                                 (r, h1) \<Rightarrow> (Returns r, h1)))))))"

subsection \<open>Observing a run\<close>

text \<open>The calls an operation issued: what it appended to the history it started from.\<close>

definition issued :: "History \<Rightarrow> History \<Rightarrow> Call list" where
  "issued h h' = drop (length h) h'"

datatype Kind =
    Prepare | Subscribe | Fetch | Construct | Handler | TimeoutHandler
  | Save | Update | Delete | SetTimeout | UnsetTimeout

fun kind :: "Call \<Rightarrow> Kind" where
  "kind (RegisterSagaTypeCall saga) = Prepare"
| "kind (SaveNewSagaCall tx t instance) = Save"
| "kind (GetSagaByIDCall tx sid) = Fetch"
| "kind (GetSagasByTypeCall tx t) = Fetch"
| "kind (UpdateSagaCall tx instance) = Update"
| "kind (DeleteSagaCall tx instance) = Delete"
| "kind (RegisterTimeoutCall tx sid duration) = SetTimeout"
| "kind (ClearTimeoutCall tx sid) = UnsetTimeout"
| "kind (HandleMessageCall message) = Subscribe"
| "kind (HandleEventCall exchange topic event) = Subscribe"
| "kind (NewInstanceCall def) = Construct"
| "kind (InvokeCall instance exchange routingKey sginv message) = Handler"
| "kind (TimeoutCall instance tx) = TimeoutHandler"


text \<open>The instances on which a business handler was invoked, in the order of the calls.\<close>

fun invoked :: "Call list \<Rightarrow> Instance list" where
  "invoked [] = []"
| "invoked (InvokeCall instance exchange routingKey sginv message # calls) =
     instance # invoked calls"
| "invoked (call # calls) = invoked calls"

text \<open>The message a handler registration is about.\<close>

fun regMessage :: "HandlerReg \<Rightarrow> Message" where
  "regMessage (OnMessage message) = message"
| "regMessage (OnEvent exchange topic event) = event"

text \<open>How often a saga's timeout handler was called.\<close>

definition timeoutHandlerCalls :: "Call list \<Rightarrow> nat" where
  "timeoutHandlerCalls calls = length (filter (\<lambda>call. kind call = TimeoutHandler) calls)"

text \<open>A sequence of calls in which every handler invocation is at once followed by a
  finished reconciliation: an update, or a delete and the clearing of the timeout.\<close>

fun reconciledInTurn :: "Kind list \<Rightarrow> bool" where
  "reconciledInTurn [] = True"
| "reconciledInTurn (Handler # Update # ks) = reconciledInTurn ks"
| "reconciledInTurn (Handler # Delete # UnsetTimeout # ks) = reconciledInTurn ks"
| "reconciledInTurn ks = False"

subsection \<open>Concrete collaborators, to run the model\<close>

text \<open>A store that holds nothing and collaborators that never fail; a handler that leaves
  the instance as it is. Runs on concrete inputs override single responses.\<close>

definition quiet :: Collab where
  "quiet =
     \<lparr>SaveNewSaga = (\<lambda>tx t instance h. None),
      GetSagaByID = (\<lambda>tx sid h. (None, None)),
      GetSagasByType = (\<lambda>tx t h. ([], None)),
      UpdateSaga = (\<lambda>tx instance h. None),
      DeleteSaga = (\<lambda>tx instance h. None),
      RegisterTimeout = (\<lambda>tx sid duration h. None),
      ClearTimeout = (\<lambda>tx sid h. None),
      HandleMessage = (\<lambda>message h. None),
      HandleEvent = (\<lambda>exchange topic event h. None),
      filterMsgName = (\<lambda>message. ToLower (SchemaName message)),
      newInstance = (\<lambda>def h.
        \<lparr>InstanceID = ''new'', StartedBy = [], StartedBySaga = [], StartedByMessageID = [],
         StartedByRPCID = [], complete = False, requestedTimeout = None,
         UnderlyingInstance = 0\<rparr>),
      configureSaga = (\<lambda>def instance. instance),
      invoke = (\<lambda>instance exchange routingKey sginv message h. (None, instance)),
      timeout = (\<lambda>instance tx h. (None, instance))\<rparr>"

definition storedInstance :: "string \<Rightarrow> bool \<Rightarrow> Instance" where
  "storedInstance sid done =
     \<lparr>InstanceID = sid, StartedBy = ''billing'', StartedBySaga = [], StartedByMessageID = ''m0'',
      StartedByRPCID = [], complete = done, requestedTimeout = None, UnderlyingInstance = 0\<rparr>"

definition orderDef :: Def where
  "orderDef = \<lparr>sagaType = ''OrderSaga'', startedBy = [''OrderCreated''],
               msgToFunc = [''ordercreated'', ''orderpaid'']\<rparr>"

definition shippingDef :: Def where
  "shippingDef = \<lparr>sagaType = ''ShippingSaga'', startedBy = [''OrderPaid''],
                  msgToFunc = [''orderpaid'']\<rparr>"


definition emptyGlue :: Glue where
  "emptyGlue = \<lparr>svcName = ''orders'', sagaDefs = [], alreadyRegistred = Map.empty,
                msgToDefMap = Map.empty\<rparr>"

definition orderGlue :: Glue where
  "orderGlue = \<lparr>svcName = ''orders'', sagaDefs = [orderDef, shippingDef],
                alreadyRegistred = [''OrderCreated'' \<mapsto> True, ''OrderPaid'' \<mapsto> True],
                msgToDefMap = [''ordercreated'' \<mapsto> [orderDef],
                               ''orderpaid'' \<mapsto> [orderDef, shippingDef]]\<rparr>"

definition orderSaga :: Saga where
  "orderSaga = \<lparr>TypeOf = ''OrderSaga'', SagaStartedBy = [\<lparr>SchemaName = ''OrderCreated''\<rparr>],
                Handlers = [OnMessage \<lparr>SchemaName = ''OrderCreated''\<rparr>,
                            OnEvent ''orders'' ''paid'' \<lparr>SchemaName = ''OrderPaid''\<rparr>]\<rparr>"

definition inv0 :: Invocation where
  "inv0 = \<lparr>InvokingSvc = ''billing'', Tx = 7, Routing = (''orders'', ''paid'')\<rparr>"

definition msg :: "string \<Rightarrow> string \<Rightarrow> Semantics \<Rightarrow> BusMessage" where
  "msg fqn correlation sem =
     \<lparr>ID = ''m1'', SagaID = ''s9'', SagaCorrelationID = correlation, RPCID = ''r3'',
      PayloadFQN = fqn, Semantics = sem\<rparr>"

section \<open>Properties\<close>

subsection \<open>Evaluation of the concrete inputs\<close>

lemma ToLower_OrderPaid [simp]: "ToLower ''OrderPaid'' = ''orderpaid''"
  by code_simp

lemma ToLower_OrderCreated [simp]: "ToLower ''OrderCreated'' = ''ordercreated''"
  by code_simp

subsection \<open>Histories only grow\<close>

lemma issued_append [simp]: "issued h (h @ cs) = cs"
  by (simp add: issued_def)

lemma issued_self [simp]: "issued h h = []"
  by (simp add: issued_def)

lemma completeOrUpdateSaga_extends:
  "\<exists>cs. snd (completeOrUpdateSaga c tx instance h) = h @ cs \<and> cs \<noteq> [] \<and> invoked cs = []
        \<and> (\<forall>call \<in> set cs. kind call \<in> {Update, Delete, UnsetTimeout})"
  by (auto simp: completeOrUpdateSaga_def split: option.splits)

lemma invokeSagaInstance_history:
  "\<exists>sginv. snd (invokeSagaInstance c imsm def instance invocation message h) =
     h @ [InvokeCall instance (fst (Routing invocation)) (snd (Routing invocation)) sginv message]"
  by (simp add: invokeSagaInstance_def Let_def)

lemma invokeSagaInstance_invoked:
  "invokeSagaInstance c imsm def instance invocation message h = (r, h1) \<Longrightarrow>
   \<exists>call. h1 = h @ [call] \<and> kind call = Handler \<and> invoked [call] = [instance]"
  by (auto simp: invokeSagaInstance_def Let_def)

subsection \<open>The branches of the dispatch loop\<close>

lemma SagaHandler_resolved:
  "getDefsForMsgName imsm (ToLower (PayloadFQN message)) = defs \<Longrightarrow>
   SagaHandler c imsm invocation message h = SagaHandler_defs c imsm invocation message defs h"
  by (simp add: SagaHandler_def)

lemma start_branch:
  "shouldStartNewSaga def message \<Longrightarrow>
   SagaHandler_defs c imsm invocation message (def # defs) h =
     handleNewSaga c imsm def invocation message h"
  by simp

lemma correlated_fetch_error:
  assumes "\<not> shouldStartNewSaga def message" "SagaCorrelationID message \<noteq> []"
      and "GetSagaByID c (Tx invocation) (SagaCorrelationID message) h = (found, Some e)"
  shows "SagaHandler_defs c imsm invocation message (def # defs) h =
           (Some e, h @ [GetSagaByIDCall (Tx invocation) (SagaCorrelationID message)])"
  using assms by simp

lemma correlated_absent:
  assumes "\<not> shouldStartNewSaga def message" "SagaCorrelationID message \<noteq> []"
      and "GetSagaByID c (Tx invocation) (SagaCorrelationID message) h = (None, None)"
  shows "SagaHandler_defs c imsm invocation message (def # defs) h =
           (None, h @ [GetSagaByIDCall (Tx invocation) (SagaCorrelationID message)])"
  using assms by simp

lemma correlated_found:
  assumes "\<not> shouldStartNewSaga def message" "SagaCorrelationID message \<noteq> []"
      and "GetSagaByID c (Tx invocation) (SagaCorrelationID message) h = (Some instance, None)"
  shows "SagaHandler_defs c imsm invocation message (def # defs) h =
           (case invokeSagaInstance c imsm def (configureSaga c def instance) invocation message
                   (h @ [GetSagaByIDCall (Tx invocation) (SagaCorrelationID message)]) of
              ((invkErr, inst), h1) \<Rightarrow>
                (case invkErr of
                   Some e \<Rightarrow> (Some e, h1)
                 | None \<Rightarrow> completeOrUpdateSaga c (Tx invocation) inst h1))"
  using assms by simp

lemma command_branch:
  assumes "\<not> shouldStartNewSaga def message" "SagaCorrelationID message = []"
      and "Semantics message = CMD"
  shows "SagaHandler_defs c imsm invocation message (def # defs) h =
           (Some (ErrorsNew ''can not resolve saga instance for message''), h)"
  using assms by simp

lemma fanout_fetch_error:
  assumes "\<not> shouldStartNewSaga def message" "SagaCorrelationID message = []"
      and "Semantics message \<noteq> CMD"
      and "GetSagasByType c (Tx invocation) (sagaType def) h = (instances, Some e)"
  shows "SagaHandler_defs c imsm invocation message (def # defs) h =
           (Some e, h @ [GetSagasByTypeCall (Tx invocation) (sagaType def)])"
  using assms by simp

lemma fanout_branch:
  assumes "\<not> shouldStartNewSaga def message" "SagaCorrelationID message = []"
      and "Semantics message \<noteq> CMD"
      and "GetSagasByType c (Tx invocation) (sagaType def) h = (instances, None)"
  shows "SagaHandler_defs c imsm invocation message (def # defs) h =
           (case fanOut c imsm def invocation message instances
                   (h @ [GetSagasByTypeCall (Tx invocation) (sagaType def)]) of
              (e, h1) \<Rightarrow>
                (case e of
                   Some e' \<Rightarrow> (Some e', h1)
                 | None \<Rightarrow> SagaHandler_defs c imsm invocation message defs h1))"
  using assms by simp

lemmas dispatch_step = SagaHandler_defs.simps(2)

declare SagaHandler_defs.simps(2) [simp del]

lemma correlated_found_history_longer:
  assumes "\<not> shouldStartNewSaga def message" "SagaCorrelationID message \<noteq> []"
      and "GetSagaByID c (Tx invocation) (SagaCorrelationID message) h = (Some instance, None)"
  shows "\<exists>call cs. snd (SagaHandler_defs c imsm invocation message (def # defs) h) =
           h @ GetSagaByIDCall (Tx invocation) (SagaCorrelationID message) # call # cs"
proof -
  let ?h0 = "h @ [GetSagaByIDCall (Tx invocation) (SagaCorrelationID message)]"
  obtain r inst' call where inv:
    "invokeSagaInstance c imsm def (configureSaga c def instance) invocation message ?h0 =
       ((r, inst'), ?h0 @ [call])"
    by (simp add: invokeSagaInstance_def Let_def) (metis surj_pair)
  show ?thesis
  proof (cases r)
    case (Some e)
    with inv show ?thesis by (simp add: correlated_found [OF assms])
  next
    case None
    obtain cs where
      "snd (completeOrUpdateSaga c (Tx invocation) inst' (?h0 @ [call])) = (?h0 @ [call]) @ cs"
      using completeOrUpdateSaga_extends by blast
    with inv None show ?thesis by (simp add: correlated_found [OF assms])
  qed
qed

subsection \<open>Registration builds the index\<close>

lemma isSagaAlreadyRegistered_defs_iff:
  "isSagaAlreadyRegistered_defs defs t = (t \<in> sagaType ` set defs)"
  by (induction defs) auto

lemma registerHandler_def_part:
  "fst (registerHandler c reg (d, g, h)) = addMsgToHandlerMapping c d (regMessage reg)"
  by (cases reg) (auto split: prod.splits)

lemma registerHandler_glue_part:
  "sagaDefs (fst (snd (registerHandler c reg (d, g, h)))) = sagaDefs g
   \<and> msgToDefMap (fst (snd (registerHandler c reg (d, g, h)))) = msgToDefMap g"
  by (cases reg) (auto simp: registerMessage_def registerEvent_def split: prod.splits option.splits)

lemma fold_registerHandler:
  "sagaType (fst (fold (registerHandler c) regs (d, g, h))) = sagaType d
   \<and> msgToFunc (fst (fold (registerHandler c) regs (d, g, h))) =
       msgToFunc d @ map (\<lambda>reg. filterMsgName c (regMessage reg)) regs
   \<and> sagaDefs (fst (snd (fold (registerHandler c) regs (d, g, h)))) = sagaDefs g
   \<and> msgToDefMap (fst (snd (fold (registerHandler c) regs (d, g, h)))) = msgToDefMap g"
proof (induction regs arbitrary: d g h)
  case Nil
  show ?case by simp
next
  case (Cons reg regs)
  obtain d1 g1 h1 where step: "registerHandler c reg (d, g, h) = (d1, g1, h1)"
    by (metis prod_cases3)
  have d1: "d1 = addMsgToHandlerMapping c d (regMessage reg)"
    using registerHandler_def_part [of c reg d g h] step by simp
  have g1: "sagaDefs g1 = sagaDefs g \<and> msgToDefMap g1 = msgToDefMap g"
    using registerHandler_glue_part [of c reg d g h] step by simp
  show ?case
    using Cons.IH [of d1 g1 h1] d1 g1 by (simp add: step addMsgToHandlerMapping_def)
qed

lemma addMsgNameToDef_sagaDefs [simp]:
  "sagaDefs (addMsgNameToDef g n d) = sagaDefs g"
  by (simp add: addMsgNameToDef_def)


lemma fold_addMsgNameToDef_sagaDefs [simp]:
  "sagaDefs (fold (\<lambda>n g. addMsgNameToDef g n d) names g) = sagaDefs g"
  by (induction names arbitrary: g) auto



lemma RegisterSaga_success:
  assumes "RegisterSaga c imsm saga h = (None, imsm', h')"
  shows "\<exists>def imsm1.
           RegisterAllHandlers c saga
             (\<lparr>sagaType = TypeOf saga, startedBy = fqnsFromMessages (SagaStartedBy saga),
               msgToFunc = []\<rparr>, imsm, h @ [RegisterSagaTypeCall saga]) = (def, imsm1, h')
           \<and> imsm' = fold (\<lambda>msgName g. addMsgNameToDef g msgName def) (getHandledMessages def)
                        (imsm1\<lparr>sagaDefs := sagaDefs imsm1 @ [def]\<rparr>)
           \<and> sagaType def = TypeOf saga
           \<and> sagaDefs imsm1 = sagaDefs imsm
           \<and> getHandledMessages def = map (\<lambda>reg. filterMsgName c (regMessage reg)) (Handlers saga)"
proof -
  let ?d0 = "\<lparr>sagaType = TypeOf saga, startedBy = fqnsFromMessages (SagaStartedBy saga),
               msgToFunc = []\<rparr>"
  obtain d g1 h1 where run:
    "RegisterAllHandlers c saga (?d0, imsm, h @ [RegisterSagaTypeCall saga]) = (d, g1, h1)"
    by (metis prod_cases3)
  from fold_registerHandler [of c "Handlers saga" ?d0 imsm "h @ [RegisterSagaTypeCall saga]"] run
  have props: "sagaType d = TypeOf saga" "sagaDefs g1 = sagaDefs imsm"
    "msgToFunc d = map (\<lambda>reg. filterMsgName c (regMessage reg)) (Handlers saga)"
    by (simp_all add: RegisterAllHandlers_def)
  from assms run have "imsm' = fold (\<lambda>msgName g. addMsgNameToDef g msgName d) (getHandledMessages d)
                        (g1\<lparr>sagaDefs := sagaDefs g1 @ [d]\<rparr>)" "h' = h1"
    by (auto simp: RegisterSaga_def split: if_splits)
  with run props show ?thesis by (simp add: getHandledMessages_def)
qed

subsection \<open>Lifecycle reconciliation\<close>

text \<open>C4. completeOrUpdateSaga on an instance that reports itself complete deletes it
  from the Store and then clears its timeout: a failing delete is returned at once, and
  otherwise the result is that of clearing the timeout; no update is issued. On an
  instance that is not complete it issues one update and returns its result; no delete
  and no clearing of a timeout is issued.\<close>

theorem completeOrUpdateSaga_deletes_or_updates:
  "(isComplete instance \<and> DeleteSaga c tx instance h = Some e \<longrightarrow>
      completeOrUpdateSaga c tx instance h = (Some e, h @ [DeleteSagaCall tx instance]))
   \<and> (isComplete instance \<and> DeleteSaga c tx instance h = None \<longrightarrow>
      completeOrUpdateSaga c tx instance h =
        (ClearTimeout c tx (InstanceID instance) (h @ [DeleteSagaCall tx instance]),
         h @ [DeleteSagaCall tx instance, ClearTimeoutCall tx (InstanceID instance)]))
   \<and> (\<not> isComplete instance \<longrightarrow>
      completeOrUpdateSaga c tx instance h =
        (UpdateSaga c tx instance h, h @ [UpdateSagaCall tx instance]))"
  by (simp add: completeOrUpdateSaga_def)

theorem completeOrUpdateSaga_deletes_or_updates_witness:
  "isComplete (storedInstance ''a'' True)
   \<and> DeleteSaga (quiet\<lparr>DeleteSaga := (\<lambda>tx i h. Some (External ''db''))\<rparr>) 7 (storedInstance ''a'' True) []
       = Some (External ''db'')
   \<and> completeOrUpdateSaga (quiet\<lparr>DeleteSaga := (\<lambda>tx i h. Some (External ''db''))\<rparr>) 7
       (storedInstance ''a'' True) [] = (Some (External ''db''), [DeleteSagaCall 7 (storedInstance ''a'' True)])
   \<and> DeleteSaga quiet 7 (storedInstance ''a'' True) [] = None
   \<and> completeOrUpdateSaga quiet 7 (storedInstance ''a'' True) [] =
       (None, [DeleteSagaCall 7 (storedInstance ''a'' True), ClearTimeoutCall 7 ''a''])
   \<and> \<not> isComplete (storedInstance ''b'' False)
   \<and> completeOrUpdateSaga quiet 7 (storedInstance ''b'' False) [] =
       (None, [UpdateSagaCall 7 (storedInstance ''b'' False)])"
  using completeOrUpdateSaga_deletes_or_updates
          [of "storedInstance ''a'' True" "quiet\<lparr>DeleteSaga := (\<lambda>tx i h. Some (External ''db''))\<rparr>" 7 "[]"
              "External ''db''"]
        completeOrUpdateSaga_deletes_or_updates [of "storedInstance ''a'' True" quiet 7 "[]"]
        completeOrUpdateSaga_deletes_or_updates [of "storedInstance ''b'' False" quiet 7 "[]"]
  by (simp add: quiet_def storedInstance_def isComplete_def)

subsection \<open>Correlated dispatch\<close>



text \<open>C9. In the correlated path only the answer "no instance, no error" is taken as a
  benign absence: SagaHandler returns success with the lookup as its only call exactly for
  that answer. When the Store reports the absence with the sentinel ErrInstanceNotFound,
  SagaHandler returns the sentinel as its error, whereas TimeoutSaga, given the same
  answer, returns success.\<close>

theorem sentinel_is_error_in_dispatch_but_success_in_timeout:
  assumes "getDefsForMsgName imsm (ToLower (PayloadFQN message)) = def # defs"
      and "\<not> shouldStartNewSaga def message"
      and "SagaCorrelationID message \<noteq> []"
  shows "(GetSagaByID c (Tx invocation) (SagaCorrelationID message) h = (found, Some ErrInstanceNotFound)
            \<longrightarrow> SagaHandler c imsm invocation message h =
                  (Some ErrInstanceNotFound,
                   h @ [GetSagaByIDCall (Tx invocation) (SagaCorrelationID message)]))
         \<and> ((SagaHandler c imsm invocation message h =
                (None, h @ [GetSagaByIDCall (Tx invocation) (SagaCorrelationID message)]))
              = (GetSagaByID c (Tx invocation) (SagaCorrelationID message) h = (None, None)))
         \<and> (GetSagaByID c (Tx invocation) (SagaCorrelationID message) h = (found, Some ErrInstanceNotFound)
            \<longrightarrow> TimeoutSaga c (Tx invocation) (SagaCorrelationID message) h =
                  (Returns None, h @ [GetSagaByIDCall (Tx invocation) (SagaCorrelationID message)]))"
proof -
  let ?get = "GetSagaByID c (Tx invocation) (SagaCorrelationID message) h"
  let ?h0 = "h @ [GetSagaByIDCall (Tx invocation) (SagaCorrelationID message)]"
  note run = SagaHandler_resolved [OF assms(1)]
  have a: "?get = (found, Some ErrInstanceNotFound) \<longrightarrow>
             SagaHandler c imsm invocation message h = (Some ErrInstanceNotFound, ?h0)"
    using correlated_fetch_error [OF assms(2,3)] by (simp add: run)
  have b: "(SagaHandler c imsm invocation message h = (None, ?h0)) = (?get = (None, None))"
  proof (cases ?get)
    case (Pair found' err)
    show ?thesis
    proof (cases err)
      case (Some e)
      with Pair correlated_fetch_error [OF assms(2,3), of c invocation h found' e imsm defs]
      show ?thesis by (simp add: run)
    next
      case None
      show ?thesis
      proof (cases found')
        case None
        with Pair \<open>err = None\<close> correlated_absent [OF assms(2,3), of c invocation h imsm defs]
        show ?thesis by (simp add: run)
      next
        case (Some i)
        with Pair \<open>err = None\<close> have g: "?get = (Some i, None)" by simp
        from correlated_found_history_longer [OF assms(2,3) g, of imsm defs]
        obtain call cs where
          "snd (SagaHandler_defs c imsm invocation message (def # defs) h) =
             h @ GetSagaByIDCall (Tx invocation) (SagaCorrelationID message) # call # cs"
          by blast
        then have "SagaHandler c imsm invocation message h \<noteq> (None, ?h0)"
          by (auto simp: run)
        with g show ?thesis by simp
      qed
    qed
  qed
  have t: "?get = (found, Some ErrInstanceNotFound) \<longrightarrow>
             TimeoutSaga c (Tx invocation) (SagaCorrelationID message) h = (Returns None, ?h0)"
    by (simp add: TimeoutSaga_def)
  from a b t show ?thesis by blast
qed

theorem sentinel_is_error_in_dispatch_but_success_in_timeout_witness:
  "getDefsForMsgName orderGlue (ToLower (PayloadFQN (msg ''OrderPaid'' ''gone'' EVT)))
     = orderDef # [shippingDef]
   \<and> \<not> shouldStartNewSaga orderDef (msg ''OrderPaid'' ''gone'' EVT)
   \<and> SagaCorrelationID (msg ''OrderPaid'' ''gone'' EVT) \<noteq> []
   \<and> GetSagaByID (quiet\<lparr>GetSagaByID := (\<lambda>tx sid h. (None, Some ErrInstanceNotFound))\<rparr>) (Tx inv0)
        (SagaCorrelationID (msg ''OrderPaid'' ''gone'' EVT)) [] = (None, Some ErrInstanceNotFound)
   \<and> SagaHandler (quiet\<lparr>GetSagaByID := (\<lambda>tx sid h. (None, Some ErrInstanceNotFound))\<rparr>)
        orderGlue inv0 (msg ''OrderPaid'' ''gone'' EVT) [] =
       (Some ErrInstanceNotFound, [GetSagaByIDCall 7 ''gone''])
   \<and> TimeoutSaga (quiet\<lparr>GetSagaByID := (\<lambda>tx sid h. (None, Some ErrInstanceNotFound))\<rparr>)
        7 ''gone'' [] = (Returns None, [GetSagaByIDCall 7 ''gone''])"
  using sentinel_is_error_in_dispatch_but_success_in_timeout
          [of orderGlue "msg ''OrderPaid'' ''gone'' EVT" orderDef "[shippingDef]"
              "quiet\<lparr>GetSagaByID := (\<lambda>tx sid h. (None, Some ErrInstanceNotFound))\<rparr>" inv0 "[]" None]
  by (simp add: getDefsForMsgName_def orderGlue_def msg_def shouldStartNewSaga_def orderDef_def
        quiet_def inv0_def)

subsection \<open>Timeout firing\<close>

text \<open>C5. TimeoutSaga on an id for which the fetch yields the sentinel ErrInstanceNotFound
  returns success and issues nothing but the lookup; any other fetch error is returned, again
  with the lookup as the only call. For an id whose instance is fetched, the saga's timeout
  handler is called once: its error is returned without any reconciliation; otherwise the
  instance as the handler left it goes through completeOrUpdateSaga, whose result and calls
  are those of TimeoutSaga.\<close>

theorem TimeoutSaga_outcomes:
  "(GetSagaByID c tx sagaID h = (found, Some ErrInstanceNotFound) \<longrightarrow>
      TimeoutSaga c tx sagaID h = (Returns None, h @ [GetSagaByIDCall tx sagaID]))
   \<and> (GetSagaByID c tx sagaID h = (found, Some err) \<and> err \<noteq> ErrInstanceNotFound \<longrightarrow>
      TimeoutSaga c tx sagaID h = (Returns (Some err), h @ [GetSagaByIDCall tx sagaID]))
   \<and> (GetSagaByID c tx sagaID h = (Some saga, None) \<and>
       timeout c saga tx (h @ [GetSagaByIDCall tx sagaID]) = (Some timeoutErr, saga') \<longrightarrow>
      TimeoutSaga c tx sagaID h =
        (Returns (Some timeoutErr), h @ [GetSagaByIDCall tx sagaID, TimeoutCall saga tx]))
   \<and> (GetSagaByID c tx sagaID h = (Some saga, None) \<and>
       timeout c saga tx (h @ [GetSagaByIDCall tx sagaID]) = (None, saga') \<longrightarrow>
      TimeoutSaga c tx sagaID h =
        (Returns (fst (completeOrUpdateSaga c tx saga'
                         (h @ [GetSagaByIDCall tx sagaID, TimeoutCall saga tx]))),
         snd (completeOrUpdateSaga c tx saga'
                (h @ [GetSagaByIDCall tx sagaID, TimeoutCall saga tx])))
      \<and> timeoutHandlerCalls (issued h (snd (TimeoutSaga c tx sagaID h))) = 1)"
proof -
  let ?h1 = "h @ [GetSagaByIDCall tx sagaID, TimeoutCall saga tx]"
  have once: "timeoutHandlerCalls (issued h (snd (completeOrUpdateSaga c tx saga' ?h1))) = 1"
  proof -
    obtain cs where cs: "snd (completeOrUpdateSaga c tx saga' ?h1) = ?h1 @ cs"
      and k: "\<forall>call \<in> set cs. kind call \<in> {Update, Delete, UnsetTimeout}"
      using completeOrUpdateSaga_extends [of c tx saga' ?h1] by blast
    from k have "filter (\<lambda>call. kind call = TimeoutHandler) cs = []"
      by (auto simp: filter_empty_conv)
    with cs show ?thesis by (simp add: timeoutHandlerCalls_def issued_def)
  qed
  show ?thesis
    using once by (auto simp: TimeoutSaga_def split: prod.splits)
qed

theorem TimeoutSaga_outcomes_witness:
  "TimeoutSaga (quiet\<lparr>GetSagaByID := (\<lambda>tx sid h. (None, Some ErrInstanceNotFound))\<rparr>) 7 ''gone'' []
     = (Returns None, [GetSagaByIDCall 7 ''gone''])
   \<and> TimeoutSaga (quiet\<lparr>GetSagaByID := (\<lambda>tx sid h. (None, Some (External ''db'')))\<rparr>) 7 ''a'' []
     = (Returns (Some (External ''db'')), [GetSagaByIDCall 7 ''a''])
   \<and> TimeoutSaga (quiet\<lparr>GetSagaByID := (\<lambda>tx sid h. (Some (storedInstance ''a'' False), None)),
                         timeout := (\<lambda>i tx h. (Some (External ''late''), i))\<rparr>) 7 ''a'' []
     = (Returns (Some (External ''late'')),
        [GetSagaByIDCall 7 ''a'', TimeoutCall (storedInstance ''a'' False) 7])
   \<and> TimeoutSaga (quiet\<lparr>GetSagaByID := (\<lambda>tx sid h. (Some (storedInstance ''a'' False), None)),
                         timeout := (\<lambda>i tx h. (None, i\<lparr>complete := True\<rparr>))\<rparr>) 7 ''a'' []
     = (Returns None,
        [GetSagaByIDCall 7 ''a'', TimeoutCall (storedInstance ''a'' False) 7,
         DeleteSagaCall 7 (storedInstance ''a'' True), ClearTimeoutCall 7 ''a''])"
  using TimeoutSaga_outcomes
          [of "quiet\<lparr>GetSagaByID := (\<lambda>tx sid h. (None, Some ErrInstanceNotFound))\<rparr>" 7 "''gone''" "[]"
              None]
        TimeoutSaga_outcomes
          [of "quiet\<lparr>GetSagaByID := (\<lambda>tx sid h. (None, Some (External ''db'')))\<rparr>" 7 "''a''" "[]"
              None "External ''db''"]
        TimeoutSaga_outcomes
          [of "quiet\<lparr>GetSagaByID := (\<lambda>tx sid h. (Some (storedInstance ''a'' False), None)),
                     timeout := (\<lambda>i tx h. (Some (External ''late''), i))\<rparr>" 7 "''a''" "[]"
              "Some (storedInstance ''a'' False)" "External ''db''" "storedInstance ''a'' False"
              "External ''late''" "storedInstance ''a'' False"]
        TimeoutSaga_outcomes
          [of "quiet\<lparr>GetSagaByID := (\<lambda>tx sid h. (Some (storedInstance ''a'' False), None)),
                     timeout := (\<lambda>i tx h. (None, i\<lparr>complete := True\<rparr>))\<rparr>" 7 "''a''" "[]"
              "Some (storedInstance ''a'' False)" "External ''db''" "storedInstance ''a'' False"
              "External ''late''" "storedInstance ''a'' True"]
  by (simp add: quiet_def storedInstance_def completeOrUpdateSaga_def isComplete_def)

subsection \<open>Which Def decides a dispatch\<close>

text \<open>C6, as stated, fails when the Def started by the message is not the first one indexed
  under the name: for a correlated message the first Def takes the correlated branch and
  returns, so the Def behind it never gets to create a saga. Here the shipping saga is
  started by OrderPaid, the order saga (indexed first) only handles it.\<close>

theorem later_start_def_is_not_reached:
  "shouldStartNewSaga shippingDef (msg ''OrderPaid'' ''gone'' EVT)
   \<and> shippingDef \<in> set (getDefsForMsgName orderGlue (ToLower (PayloadFQN (msg ''OrderPaid'' ''gone'' EVT))))
   \<and> SagaHandler quiet orderGlue inv0 (msg ''OrderPaid'' ''gone'' EVT) [] =
       (None, [GetSagaByIDCall 7 ''gone''])
   \<and> snd (handleNewSaga quiet orderGlue shippingDef inv0 (msg ''OrderPaid'' ''gone'' EVT) []) \<noteq>
       [GetSagaByIDCall 7 ''gone'']"
  by (simp add: SagaHandler_def getDefsForMsgName_def orderGlue_def msg_def shouldStartNewSaga_def
        orderDef_def shippingDef_def quiet_def inv0_def dispatch_step handleNewSaga_def
        invokeSagaInstance_def isComplete_def requestsTimeout_def Let_def)

text \<open>C6, amended. When the dispatch loop reaches a Def whose startedBy contains the message
  name, the rest of the call is the creation path for that Def: its result is returned,
  whatever the SagaCorrelationID of the message, and no Def behind it is processed. In
  particular, when that Def is the first one indexed under the message name, SagaHandler as a
  whole is the creation path for it.\<close>

theorem start_message_takes_creation_path:
  assumes "shouldStartNewSaga def message"
  shows "SagaHandler_defs c imsm invocation message (def # defs) h =
           handleNewSaga c imsm def invocation message h
         \<and> (getDefsForMsgName imsm (ToLower (PayloadFQN message)) = def # defs \<longrightarrow>
              SagaHandler c imsm invocation message h =
                handleNewSaga c imsm def invocation message h)"
  using assms by (simp add: start_branch SagaHandler_def)

theorem start_message_takes_creation_path_witness:
  "shouldStartNewSaga orderDef (msg ''OrderCreated'' ''x1'' CMD)
   \<and> getDefsForMsgName orderGlue (ToLower (PayloadFQN (msg ''OrderCreated'' ''x1'' CMD))) = orderDef # []
   \<and> SagaHandler quiet orderGlue inv0 (msg ''OrderCreated'' ''x1'' CMD) [] =
       handleNewSaga quiet orderGlue orderDef inv0 (msg ''OrderCreated'' ''x1'' CMD) []
   \<and> map kind (snd (SagaHandler quiet orderGlue inv0 (msg ''OrderCreated'' ''x1'' CMD) [])) =
       [Construct, Handler, Save]"
  using start_message_takes_creation_path
          [of orderDef "msg ''OrderCreated'' ''x1'' CMD" quiet orderGlue inv0 "[]" "[]"]
  by (simp add: getDefsForMsgName_def orderGlue_def msg_def shouldStartNewSaga_def
        orderDef_def quiet_def inv0_def handleNewSaga_def dispatch_step
        invokeSagaInstance_def isComplete_def requestsTimeout_def Let_def)

text \<open>C10. For a message that does not start a saga of the Def the loop examines: with a
  SagaCorrelationID the call ends at this Def, whatever the lookup, the invocation and the
  reconciliation yield, and the Defs behind it have no influence on result or calls; without
  a SagaCorrelationID a command ends the call with the routing error and no call at all;
  only the fan-out of an event goes on to the Defs behind, from the history the fan-out
  left, and only when the fetch and every invocation and reconciliation succeeded.\<close>

theorem first_returning_def_ends_dispatch:
  assumes "\<not> shouldStartNewSaga def message"
  shows "(SagaCorrelationID message \<noteq> [] \<longrightarrow>
            SagaHandler_defs c imsm invocation message (def # defs) h =
              SagaHandler_defs c imsm invocation message [def] h)
         \<and> (SagaCorrelationID message = [] \<and> Semantics message = CMD \<longrightarrow>
            SagaHandler_defs c imsm invocation message (def # defs) h =
              (Some (ErrorsNew ''can not resolve saga instance for message''), h))
         \<and> (SagaCorrelationID message = [] \<and> Semantics message \<noteq> CMD \<longrightarrow>
            SagaHandler_defs c imsm invocation message (def # defs) h =
              (case SagaHandler_defs c imsm invocation message [def] h of
                 (e, h1) \<Rightarrow>
                   (case e of
                      Some e' \<Rightarrow> (Some e', h1)
                    | None \<Rightarrow> SagaHandler_defs c imsm invocation message defs h1)))"
  using assms
  by (auto simp: dispatch_step split: prod.splits option.splits)

theorem first_returning_def_ends_dispatch_witness:
  "\<not> shouldStartNewSaga orderDef (msg ''OrderPaid'' ''gone'' EVT)
   \<and> SagaHandler_defs quiet orderGlue inv0 (msg ''OrderPaid'' ''gone'' EVT) [orderDef, shippingDef] []
       = SagaHandler_defs quiet orderGlue inv0 (msg ''OrderPaid'' ''gone'' EVT) [orderDef] []
   \<and> SagaHandler_defs quiet orderGlue inv0 (msg ''OrderPaid'' ''gone'' EVT) [orderDef, shippingDef] []
       = (None, [GetSagaByIDCall 7 ''gone''])
   \<and> SagaHandler_defs quiet orderGlue inv0 (msg ''OrderPaid'' [] CMD) [orderDef, shippingDef] []
       = (Some (ErrorsNew ''can not resolve saga instance for message''), [])
   \<and> map kind (snd (SagaHandler_defs quiet orderGlue inv0 (msg ''OrderPaid'' [] EVT)
                       [orderDef, shippingDef] []))
       = [Fetch, Construct, Handler, Save]"
  using first_returning_def_ends_dispatch
          [of orderDef "msg ''OrderPaid'' ''gone'' EVT" quiet orderGlue inv0 "[shippingDef]" "[]"]
        first_returning_def_ends_dispatch
          [of orderDef "msg ''OrderPaid'' [] CMD" quiet orderGlue inv0 "[shippingDef]" "[]"]
        first_returning_def_ends_dispatch
          [of orderDef "msg ''OrderPaid'' [] EVT" quiet orderGlue inv0 "[shippingDef]" "[]"]
  by (simp add: orderGlue_def msg_def shouldStartNewSaga_def orderDef_def shippingDef_def
        quiet_def inv0_def handleNewSaga_def dispatch_step invokeSagaInstance_def
        isComplete_def requestsTimeout_def Let_def)

subsection \<open>Creation of a saga\<close>

text \<open>C3. handleNewSaga constructs an instance and stamps it: StartedBy is the invoking
  service of the invocation, StartedBySaga, StartedByRPCID and StartedByMessageID are the
  SagaID, RPCID and ID of the message; the first invocation is on that instance, and up to
  there only the construction and the invocation have been issued. If the invocation fails,
  its error is returned and nothing else is issued, so nothing is persisted. If it succeeds
  and the instance is complete afterwards, success is returned and nothing else is issued:
  the instance is neither saved nor deleted. If it succeeds and the instance is not
  complete, the next call saves that instance as new; the only call that may follow is the
  registration of its timeout.\<close>

theorem handleNewSaga_creates_and_saves_unless_complete:
  assumes created: "created = (newInstance c def h)
            \<lparr>StartedBy := InvokingSvc invocation, StartedBySaga := SagaID message,
             StartedByRPCID := RPCID message, StartedByMessageID := ID message\<rparr>"
      and first: "invokeSagaInstance c imsm def created invocation message
                    (h @ [NewInstanceCall def]) = ((invkErr, inst), h1)"
  shows "StartedBy created = InvokingSvc invocation \<and> StartedBySaga created = SagaID message
         \<and> StartedByRPCID created = RPCID message \<and> StartedByMessageID created = ID message
         \<and> invoked (issued h h1) = [created]
         \<and> map kind (issued h h1) = [Construct, Handler]
         \<and> (invkErr = Some e \<longrightarrow>
              handleNewSaga c imsm def invocation message h = (Some e, h1))
         \<and> (invkErr = None \<and> isComplete inst \<longrightarrow>
              handleNewSaga c imsm def invocation message h = (None, h1))
         \<and> (invkErr = None \<and> \<not> isComplete inst \<longrightarrow>
              (\<exists>rest. snd (handleNewSaga c imsm def invocation message h) =
                        h1 @ SaveNewSagaCall (Tx invocation) (sagaType def) inst # rest
                      \<and> map kind rest \<in> {[], [SetTimeout]}))"
proof -
  from invokeSagaInstance_invoked [OF first] obtain call where
    h1: "h1 = h @ [NewInstanceCall def, call]" and k: "kind call = Handler"
    and i: "invoked [call] = [created]"
    by auto
  have fields: "StartedBy created = InvokingSvc invocation \<and> StartedBySaga created = SagaID message
         \<and> StartedByRPCID created = RPCID message \<and> StartedByMessageID created = ID message"
    by (simp add: created)
  have shape: "invoked (issued h h1) = [created] \<and> map kind (issued h h1) = [Construct, Handler]"
    using h1 k i by simp
  have run: "handleNewSaga c imsm def invocation message h =
     (case invkErr of
        Some e \<Rightarrow> (Some e, h1)
      | None \<Rightarrow>
          if \<not> isComplete inst then
            (case SaveNewSaga c (Tx invocation) (sagaType def) inst h1 of
               Some e \<Rightarrow> (Some e, h1 @ [SaveNewSagaCall (Tx invocation) (sagaType def) inst])
             | None \<Rightarrow>
                 (case requestsTimeout inst of
                    (requests, duration) \<Rightarrow>
                      if requests then
                        (RegisterTimeout c (Tx invocation) (InstanceID inst) duration
                           (h1 @ [SaveNewSagaCall (Tx invocation) (sagaType def) inst]),
                         h1 @ [SaveNewSagaCall (Tx invocation) (sagaType def) inst,
                               RegisterTimeoutCall (Tx invocation) (InstanceID inst) duration])
                      else (None, h1 @ [SaveNewSagaCall (Tx invocation) (sagaType def) inst])))
          else (None, h1))"
    using first by (simp add: handleNewSaga_def created [symmetric] Let_def)
  have failed: "invkErr = Some e \<longrightarrow> handleNewSaga c imsm def invocation message h = (Some e, h1)"
    by (simp add: run)
  have finished: "invkErr = None \<and> isComplete inst \<longrightarrow>
              handleNewSaga c imsm def invocation message h = (None, h1)"
    by (simp add: run)
  have saved: "invkErr = None \<and> \<not> isComplete inst \<longrightarrow>
              (\<exists>rest. snd (handleNewSaga c imsm def invocation message h) =
                        h1 @ SaveNewSagaCall (Tx invocation) (sagaType def) inst # rest
                      \<and> map kind rest \<in> {[], [SetTimeout]})"
    by (auto simp: run split: option.splits prod.splits)
  from fields shape failed finished saved show ?thesis by blast
qed

theorem handleNewSaga_creates_and_saves_unless_complete_witness:
  "fst (handleNewSaga quiet orderGlue orderDef inv0 (msg ''OrderCreated'' [] EVT) []) = None
   \<and> map kind (snd (handleNewSaga quiet orderGlue orderDef inv0 (msg ''OrderCreated'' [] EVT) []))
       = [Construct, Handler, Save]
   \<and> map StartedBy
       (invoked (snd (handleNewSaga quiet orderGlue orderDef inv0 (msg ''OrderCreated'' [] EVT) [])))
       = [''billing'']
   \<and> map StartedByMessageID
       (invoked (snd (handleNewSaga quiet orderGlue orderDef inv0 (msg ''OrderCreated'' [] EVT) [])))
       = [''m1'']
   \<and> fst (handleNewSaga (quiet\<lparr>invoke := (\<lambda>i x r s m h. (None, i\<lparr>complete := True\<rparr>))\<rparr>)
             orderGlue orderDef inv0 (msg ''OrderCreated'' [] EVT) []) = None
   \<and> map kind
       (snd (handleNewSaga (quiet\<lparr>invoke := (\<lambda>i x r s m h. (None, i\<lparr>complete := True\<rparr>))\<rparr>)
               orderGlue orderDef inv0 (msg ''OrderCreated'' [] EVT) []))
       = [Construct, Handler]
   \<and> fst (handleNewSaga (quiet\<lparr>invoke := (\<lambda>i x r s m h. (Some (External ''boom''), i))\<rparr>)
             orderGlue orderDef inv0 (msg ''OrderCreated'' [] EVT) []) = Some (External ''boom'')
   \<and> map kind
       (snd (handleNewSaga (quiet\<lparr>invoke := (\<lambda>i x r s m h. (Some (External ''boom''), i))\<rparr>)
               orderGlue orderDef inv0 (msg ''OrderCreated'' [] EVT) []))
       = [Construct, Handler]"
  using handleNewSaga_creates_and_saves_unless_complete
          [of "(newInstance quiet orderDef [])
                \<lparr>StartedBy := InvokingSvc inv0,
                 StartedBySaga := SagaID (msg ''OrderCreated'' [] EVT),
                 StartedByRPCID := RPCID (msg ''OrderCreated'' [] EVT),
                 StartedByMessageID := ID (msg ''OrderCreated'' [] EVT)\<rparr>"
              "msg ''OrderCreated'' [] EVT" inv0 quiet orderDef "[]" orderGlue None
              "(newInstance quiet orderDef [])
                \<lparr>StartedBy := InvokingSvc inv0,
                 StartedBySaga := SagaID (msg ''OrderCreated'' [] EVT),
                 StartedByRPCID := RPCID (msg ''OrderCreated'' [] EVT),
                 StartedByMessageID := ID (msg ''OrderCreated'' [] EVT)\<rparr>"
              "snd (invokeSagaInstance quiet orderGlue orderDef
                ((newInstance quiet orderDef [])
                   \<lparr>StartedBy := InvokingSvc inv0,
                    StartedBySaga := SagaID (msg ''OrderCreated'' [] EVT),
                    StartedByRPCID := RPCID (msg ''OrderCreated'' [] EVT),
                    StartedByMessageID := ID (msg ''OrderCreated'' [] EVT)\<rparr>)
                inv0 (msg ''OrderCreated'' [] EVT) [NewInstanceCall orderDef])"]
  by (simp add: orderGlue_def msg_def orderDef_def quiet_def inv0_def handleNewSaga_def
        invokeSagaInstance_def isComplete_def requestsTimeout_def Let_def)

subsection \<open>Registration\<close>


text \<open>C8. RegisterSaga for a saga whose type some registered Def already has returns an
  error that names the type, and leaves the glue and the history as they were: no storage
  is prepared, no Def is built or appended, no message name is indexed. After a successful
  registration of a saga, every further registration of a saga of that type is such a
  rejected one.\<close>

theorem duplicate_registration_is_rejected:
  "(isSagaAlreadyRegistered imsm (TypeOf saga) \<longrightarrow>
      RegisterSaga c imsm saga h =
        (Some (Errorf (''saga of type '' @ TypeOf saga @ '' already registered'')), imsm, h))
   \<and> (RegisterSaga c imsm saga h = (None, imsm', h') \<and> TypeOf again = TypeOf saga \<longrightarrow>
      RegisterSaga c2 imsm' again h2 =
        (Some (Errorf (''saga of type '' @ TypeOf saga @ '' already registered'')), imsm', h2))"
proof -
  have a: "isSagaAlreadyRegistered imsm (TypeOf saga) \<longrightarrow>
      RegisterSaga c imsm saga h =
        (Some (Errorf (''saga of type '' @ TypeOf saga @ '' already registered'')), imsm, h)"
    by (simp add: RegisterSaga_def)
  have b: "RegisterSaga c2 imsm' again h2 =
        (Some (Errorf (''saga of type '' @ TypeOf saga @ '' already registered'')), imsm', h2)"
    if ok: "RegisterSaga c imsm saga h = (None, imsm', h')" and same: "TypeOf again = TypeOf saga"
  proof -
    from RegisterSaga_success [OF ok] obtain d g1 where
      "imsm' = fold (\<lambda>msgName g. addMsgNameToDef g msgName d) (getHandledMessages d)
                 (g1\<lparr>sagaDefs := sagaDefs g1 @ [d]\<rparr>)" and "sagaType d = TypeOf saga"
      by blast
    then have "isSagaAlreadyRegistered imsm' (TypeOf again)"
      by (simp add: isSagaAlreadyRegistered_def isSagaAlreadyRegistered_defs_iff same)
    then show ?thesis by (simp add: RegisterSaga_def same)
  qed
  from a b show ?thesis by blast
qed

theorem duplicate_registration_is_rejected_witness:
  "isSagaAlreadyRegistered orderGlue (TypeOf orderSaga)
   \<and> RegisterSaga quiet orderGlue orderSaga [] =
       (Some (Errorf ''saga of type OrderSaga already registered''), orderGlue, [])
   \<and> fst (RegisterSaga quiet emptyGlue orderSaga []) = None
   \<and> RegisterSaga quiet (fst (snd (RegisterSaga quiet emptyGlue orderSaga []))) orderSaga
        (snd (snd (RegisterSaga quiet emptyGlue orderSaga []))) =
       (Some (Errorf ''saga of type OrderSaga already registered''),
        fst (snd (RegisterSaga quiet emptyGlue orderSaga [])),
        snd (snd (RegisterSaga quiet emptyGlue orderSaga [])))"
proof -
  have first: "fst (RegisterSaga quiet emptyGlue orderSaga []) = None"
    by (simp add: RegisterSaga_def isSagaAlreadyRegistered_def emptyGlue_def split: prod.splits)
  then have ok: "RegisterSaga quiet emptyGlue orderSaga [] =
      (None, fst (snd (RegisterSaga quiet emptyGlue orderSaga [])),
       snd (snd (RegisterSaga quiet emptyGlue orderSaga [])))"
    by (metis prod.collapse)
  have dup: "isSagaAlreadyRegistered orderGlue (TypeOf orderSaga)"
    by (simp add: isSagaAlreadyRegistered_def orderGlue_def orderSaga_def orderDef_def)
  have name: "TypeOf orderSaga = ''OrderSaga''"
    by (simp add: orderSaga_def)
  from duplicate_registration_is_rejected
         [of orderGlue orderSaga quiet "[]"
             "fst (snd (RegisterSaga quiet emptyGlue orderSaga []))"
             "snd (snd (RegisterSaga quiet emptyGlue orderSaga []))" orderSaga quiet
             "snd (snd (RegisterSaga quiet emptyGlue orderSaga []))"]
       duplicate_registration_is_rejected
         [of emptyGlue orderSaga quiet "[]"
             "fst (snd (RegisterSaga quiet emptyGlue orderSaga []))"
             "snd (snd (RegisterSaga quiet emptyGlue orderSaga []))" orderSaga quiet
             "snd (snd (RegisterSaga quiet emptyGlue orderSaga []))"]
       first ok dup
  show ?thesis by (simp add: name)
qed




end
